theory Spec2Isabelle
  imports Main "HOL-Library.Sublist"
begin

section \<open>Effects and errors\<close>

text \<open>
  The window module of the wallet's main process is TypeScript on Electron. Its routines
  return nothing of interest; what matters is what they do: open a URL through the
  platform shell, send a HEAD request, write a log line. Every routine is therefore
  modelled as a function returning its result (or the exception it throws, \<open>Inl\<close>)
  together with the list of effects it performed, in order. An \<^verbatim>\<open>async\<close> function
  that is awaited at once is modelled the same way, by what its promise settles to: a
  rejection is \<open>Inl\<close>, like a thrown exception.
\<close>

datatype js_error = TypeError string | OtherError string

datatype effect =
    ShellOpenExternal string  \<comment> \<open>\<^verbatim>\<open>shell.openExternal(url)\<close>\<close>
  | FetchHead string  \<comment> \<open>\<^verbatim>\<open>fetch(url, { method: 'HEAD', redirect: 'manual' })\<close>\<close>
  | ConsoleLog js_error  \<comment> \<open>\<^verbatim>\<open>console.log(error)\<close>\<close>
  | LogVerbose string  \<comment> \<open>\<^verbatim>\<open>log.verbose(msg)\<close>\<close>
  | LogInfo string nat  \<comment> \<open>\<^verbatim>\<open>log.info(msg, pid)\<close>\<close>

type_synonym 'a io = "(js_error + 'a) \<times> effect list"

section \<open>External navigation gate\<close>

text \<open>\<^verbatim>\<open>String.prototype.startsWith\<close> with its default position 0.\<close>

fun startsWith :: "string \<Rightarrow> string \<Rightarrow> bool" where
  "startsWith s [] = True"
| "startsWith [] (p # ps) = False"
| "startsWith (c # cs) (p # ps) = (c = p \<and> startsWith cs ps)"

definition externalWhitelist :: "string list" where
  "externalWhitelist =
    [''https://frame.sh'',
     ''https://chrome.google.com/webstore/detail/frame-alpha/ldcoohedfbjoobcadoglnnmmfbdlmmhf'',
     ''https://addons.mozilla.org/en-US/firefox/addon/frame-extension'',
     ''https://github.com/floating/frame/issues/new'',
     ''https://github.com/floating/frame/blob/master/LICENSE'',
     ''https://github.com/floating/frame/blob/0.5/LICENSE'',
     ''https://shop.ledger.com/pages/ledger-nano-x?r=1fb484cde64f'',
     ''https://shop.trezor.io/?offer_id=10&aff_id=3270'',
     ''https://discord.gg/UH7NGqY'',
     ''https://frame.canny.io'',
     ''https://feedback.frame.sh'',
     ''https://wiki.trezor.io/Trezor_Bridge'',
     ''https://opensea.io'']"

definition isValidReleasePage :: "string \<Rightarrow> bool" where
  "isValidReleasePage url \<longleftrightarrow>
     startsWith url ''https://github.com/floating/frame/releases/tag'' \<or>
     startsWith url ''https://github.com/frame-labs/frame-canary/releases/tag''"

definition isWhitelistedHost :: "string \<Rightarrow> bool" where
  "isWhitelistedHost url \<longleftrightarrow>
     list_ex (\<lambda>entry. url = entry \<or> startsWith url (entry @ ''/'')) externalWhitelist"

text \<open>
  \<^verbatim>\<open>openExternal(url = '')\<close>: an argument left out (\<open>None\<close>) takes the default, the
  empty string.
\<close>

definition openExternal :: "string option \<Rightarrow> unit io" where
  "openExternal arg =
     (let url = (case arg of None \<Rightarrow> [] | Some u \<Rightarrow> u)
      in if isWhitelistedHost url \<or> isValidReleasePage url
         then (Inr (), [ShellOpenExternal url])
         else (Inr (), []))"

section \<open>Explorer URL resolver\<close>

text \<open>
  A HEAD request either resolves with a response, of which the code reads the two flags
  \<^verbatim>\<open>redirected\<close> and \<^verbatim>\<open>ok\<close>, or rejects with an error (timeout, DNS failure,
  refused connection, malformed URL). The network is a parameter: it answers each URL.
  A request is taken to settle: the network stack's own timeout ends a hung probe by a
  rejection.
\<close>

record response =
  redirected :: bool
  ok :: bool

datatype fetch_outcome = Resolves response | Rejects js_error

type_synonym network = "string \<Rightarrow> fetch_outcome"

text \<open>
  A promise that is already running is what the call did before its first suspension
  (\<open>started\<close>), what it settles to (\<open>outcome\<close>, \<open>Inl\<close> for a rejection) and what it does
  between the two (\<open>afterwards\<close>). Code that awaits a promise at once sees the two effect
  lists one after the other; \<^verbatim>\<open>Promise.all\<close> below is where they come apart.
\<close>

record 'a promise =
  started :: "effect list"
  outcome :: "js_error + 'a"
  afterwards :: "effect list"

definition fetch_head :: "network \<Rightarrow> string \<Rightarrow> response promise" where
  "fetch_head net url =
     \<lparr> started = [FetchHead url],
       outcome = (case net url of Resolves r \<Rightarrow> Inr r | Rejects e \<Rightarrow> Inl e),
       afterwards = [] \<rparr>"

text \<open>
  The request is sent when \<open>urlExists\<close> is called; the function then waits for it. The
  \<^verbatim>\<open>try\<close> block is the \<open>Inr\<close> branch, the \<^verbatim>\<open>catch\<close> block the \<open>Inl\<close> branch.
\<close>

definition urlExists :: "network \<Rightarrow> string \<Rightarrow> bool promise" where
  "urlExists net url =
     (let request = fetch_head net url
      in case outcome request of
           Inr response \<Rightarrow>
             \<lparr> started = started request,
               outcome = Inr (\<not> redirected response \<and> ok response),
               afterwards = afterwards request \<rparr>
         | Inl error \<Rightarrow>
             \<lparr> started = started request,
               outcome = Inr False,
               afterwards = afterwards request @ [ConsoleLog error] \<rparr>)"

text \<open>
  \<^verbatim>\<open>Promise.all\<close> over promises that are already running: all of them were started
  first, in order, and every one runs to its end. The result is the list of their values,
  or a rejection when one rejects. What the promises do after they were started is listed
  promise by promise; the code does not fix the order in which concurrent promises
  settle, nor which of several rejections is reported (here the first in the list).
\<close>

fun all_outcomes :: "(js_error + 'a) list \<Rightarrow> js_error + 'a list" where
  "all_outcomes [] = Inr []"
| "all_outcomes (r # rs) =
     (case r of
        Inl e \<Rightarrow> Inl e
      | Inr x \<Rightarrow> (case all_outcomes rs of Inl e \<Rightarrow> Inl e | Inr xs \<Rightarrow> Inr (x # xs)))"

definition Promise_all :: "'a promise list \<Rightarrow> 'a list io" where
  "Promise_all ps =
     (all_outcomes (map outcome ps), concat (map started ps) @ concat (map afterwards ps))"

text \<open>\<^verbatim>\<open>Array.prototype.findIndex\<close>: the index of the first element that passes, or -1.\<close>

fun findIndex :: "('a \<Rightarrow> bool) \<Rightarrow> 'a list \<Rightarrow> int" where
  "findIndex P [] = - 1"
| "findIndex P (x # xs) =
     (if P x then 0 else (let i = findIndex P xs in if i < 0 then - 1 else i + 1))"

text \<open>Reading \<^verbatim>\<open>xs[i]\<close>: out of range the value is \<^verbatim>\<open>undefined\<close>, here \<open>None\<close>.\<close>

definition index_at :: "'a list \<Rightarrow> int \<Rightarrow> 'a option" where
  "index_at xs i = (if 0 \<le> i \<and> i < int (length xs) then Some (xs ! nat i) else None)"

text \<open>
  A value of type \<^verbatim>\<open>string | undefined\<close> is a \<open>string option\<close>. It is falsy when it is
  \<^verbatim>\<open>undefined\<close> or the empty string; in a template literal \<^verbatim>\<open>undefined\<close> prints as
  the word.
\<close>

definition truthy_str :: "string option \<Rightarrow> bool" where
  "truthy_str v = (case v of None \<Rightarrow> False | Some s \<Rightarrow> s \<noteq> [])"

definition template :: "string option \<Rightarrow> string" where
  "template v = (case v of None \<Rightarrow> ''undefined'' | Some s \<Rightarrow> s)"

definition getTokenUrl :: "network \<Rightarrow> string \<Rightarrow> string \<Rightarrow> string option \<Rightarrow> string option io" where
  "getTokenUrl net explorer address tokenId =
     (let tokenPath = explorer @ ''/token/'' @ address;
          nftPath = explorer @ ''/nft/'' @ address @ ''/'' @ template tokenId
      in if \<not> truthy_str tokenId then (Inr (Some tokenPath), [])
         else
           (let urls = [nftPath, tokenPath]
            in case Promise_all (map (urlExists net) urls) of
                 (Inl e, tr) \<Rightarrow> (Inl e, tr)
               | (Inr urlExistenceList, tr) \<Rightarrow>
                   (let existingUrlIndex = findIndex (\<lambda>ex. ex) urlExistenceList
                    in if existingUrlIndex \<ge> 0
                       then (Inr (index_at urls existingUrlIndex), tr)
                       else (Inr (Some (explorer @ ''/address/'' @ address)), tr))))"

text \<open>
  The request. Its \<^verbatim>\<open>type\<close> is one of three string literals; \<^verbatim>\<open>hash\<close>,
  \<^verbatim>\<open>address\<close> and \<^verbatim>\<open>tokenId\<close> are optional.
\<close>

record chain_ref =
  chain_id :: int
  chain_type :: string

datatype explorer_type = Tx | Address | Token

record OpenExplorer =
  req_chain :: chain_ref
  req_type :: explorer_type
  req_hash :: "string option"
  req_address :: "string option"
  req_tokenId :: "string option"

text \<open>
  The configuration store is another module of the application; its lookup
  \<^verbatim>\<open>store('main.networks', chain.type, chain.id, 'explorer')\<close> is a parameter here,
  answering a chain type and a chain id with the configured string, if any.
\<close>

type_synonym store = "string \<Rightarrow> int \<Rightarrow> string option"

text \<open>\<^verbatim>\<open>a || b\<close> for \<^verbatim>\<open>a\<close> a string or undefined and \<^verbatim>\<open>b\<close> a string.\<close>

definition or_else :: "string option \<Rightarrow> string \<Rightarrow> string" where
  "or_else a b = (case a of None \<Rightarrow> b | Some s \<Rightarrow> if s = [] then b else s)"

text \<open>
  \<^verbatim>\<open>a && f(a)\<close> for \<^verbatim>\<open>a\<close> a string or undefined: a falsy \<^verbatim>\<open>a\<close> is the value and
  \<^verbatim>\<open>f\<close> is not run.
\<close>

definition and_then :: "string option \<Rightarrow> (string \<Rightarrow> string option io) \<Rightarrow> string option io" where
  "and_then a f =
     (case a of None \<Rightarrow> (Inr None, []) | Some s \<Rightarrow> if s = [] then (Inr (Some []), []) else f s)"

text \<open>
  \<^verbatim>\<open>s.replace(/\/+$/, '')\<close>: the one match of the pattern, if any, is the whole run of
  slashes that ends the string, and it is removed.
\<close>

definition strip_trailing_slashes :: "string \<Rightarrow> string" where
  "strip_trailing_slashes s = rev (dropWhile (\<lambda>c. c = CHR ''/'') (rev s))"

text \<open>
  The table \<^verbatim>\<open>urlFormats\<close> has one entry for each of the three request types, so
  \<^verbatim>\<open>urlFormats[type]\<close> is always a function, and the entry chosen is called and awaited.
\<close>

definition urlFormats ::
  "network \<Rightarrow> string \<Rightarrow> string option \<Rightarrow> string option \<Rightarrow> string option \<Rightarrow>
   explorer_type \<Rightarrow> string option io" where
  "urlFormats net explorer hash address tokenId type =
     (case type of
        Tx \<Rightarrow> and_then hash (\<lambda>h. (Inr (Some (explorer @ ''/tx/'' @ h)), []))
      | Token \<Rightarrow> and_then address (\<lambda>a. getTokenUrl net explorer a tokenId)
      | Address \<Rightarrow> and_then address (\<lambda>a. (Inr (Some (explorer @ ''/address/'' @ a)), [])))"

definition openBlockExplorer :: "store \<Rightarrow> network \<Rightarrow> OpenExplorer \<Rightarrow> unit io" where
  "openBlockExplorer store net openExplorer =
     (let chain = req_chain openExplorer;
          type = req_type openExplorer;
          hash = req_hash openExplorer;
          address = req_address openExplorer;
          tokenId = req_tokenId openExplorer;
          explorer =
            strip_trailing_slashes (or_else (store (chain_type chain) (chain_id chain)) [])
      in if explorer = [] then (Inr (), [])
         else
           (case (if explorer \<noteq> [] then urlFormats net explorer hash address tokenId type
                  else (Inr (Some explorer), [])) of
              (Inl e, tr) \<Rightarrow> (Inl e, tr)
            | (Inr explorerUrl, tr) \<Rightarrow>
                (Inr (), tr @ [ShellOpenExternal (or_else explorerUrl explorer)])))"

section \<open>JavaScript values and objects\<close>

text \<open>
  Option objects and component props are plain JavaScript objects: maps from property
  names to values. A property that is missing reads as \<^verbatim>\<open>undefined\<close>. Numbers matter
  only through their truthiness (zero and \<^verbatim>\<open>NaN\<close> are falsy), so a number is an integer
  or \<^verbatim>\<open>NaN\<close>; arrays and functions are objects.
\<close>

datatype jsval =
    VUndefined
  | VNull
  | VBool bool
  | VNum int
  | VNaN
  | VStr string
  | VObj "string \<Rightarrow> jsval option"

type_synonym jsobj = "string \<Rightarrow> jsval option"

fun truthy :: "jsval \<Rightarrow> bool" where
  "truthy VUndefined = False"
| "truthy VNull = False"
| "truthy (VBool b) = b"
| "truthy (VNum n) = (n \<noteq> 0)"
| "truthy VNaN = False"
| "truthy (VStr s) = (s \<noteq> [])"
| "truthy (VObj m) = True"

text \<open>\<^verbatim>\<open>o.k\<close> for an object \<^verbatim>\<open>o\<close>.\<close>

definition get_prop :: "jsobj \<Rightarrow> string \<Rightarrow> jsval" where
  "get_prop ob k = (case ob k of None \<Rightarrow> VUndefined | Some v \<Rightarrow> v)"

text \<open>
  \<^verbatim>\<open>v.k\<close> for any value \<^verbatim>\<open>v\<close> and a name \<^verbatim>\<open>k\<close> that no built-in prototype defines:
  reading from \<^verbatim>\<open>undefined\<close> or \<^verbatim>\<open>null\<close> throws a TypeError, and a primitive has no
  such property.
\<close>

fun member :: "jsval \<Rightarrow> string \<Rightarrow> js_error + jsval" where
  "member VUndefined k = Inl (TypeError (''Cannot read properties of undefined (reading '' @ k @ '')''))"
| "member VNull k = Inl (TypeError (''Cannot read properties of null (reading '' @ k @ '')''))"
| "member (VObj m) k = Inr (get_prop m k)"
| "member v k = Inr VUndefined"

text \<open>\<^verbatim>\<open>a || b\<close> on values.\<close>

definition js_or :: "jsval \<Rightarrow> jsval \<Rightarrow> jsval" where
  "js_or a b = (if truthy a then a else b)"

text \<open>\<^verbatim>\<open>...o\<close> in an object literal: an \<^verbatim>\<open>undefined\<close> operand (\<open>None\<close>) adds nothing.\<close>

definition spread :: "jsobj option \<Rightarrow> jsobj" where
  "spread o_opt = (case o_opt of None \<Rightarrow> Map.empty | Some m \<Rightarrow> m)"

section \<open>Window and view factory\<close>

text \<open>
  What the factory reads from its process: the platform name, the bundle location (an
  environment variable, taken to be set, as the call of \<^verbatim>\<open>path.resolve\<close> on it needs)
  and Node's \<^verbatim>\<open>path.resolve\<close>, a parameter.
\<close>

record env =
  platform :: string
  BUNDLE_LOCATION :: string
  path_resolve :: "string list \<Rightarrow> string"

text \<open>
  A browsing surface is what the constructor received and what was registered on its
  \<^verbatim>\<open>webContents\<close> afterwards: the options object, the listeners added with
  \<^verbatim>\<open>once\<close> and with \<^verbatim>\<open>on\<close> (in the order of registration), and the window-open
  handler. A listener gets the event and may change it and produce effects; the first
  argument is the process id \<^verbatim>\<open>webContents.getOSProcessId()\<close> answers at that time.
\<close>

record event =
  defaultPrevented :: bool

record handler_response =
  action :: string

record open_details =
  details_url :: string

datatype surface_kind = BrowserWindow | BrowserView

type_synonym listener = "nat \<Rightarrow> event \<Rightarrow> event \<times> effect list"

record surface =
  kind :: surface_kind
  options :: jsobj
  once_listeners :: "(string \<times> listener) list"
  on_listeners :: "(string \<times> listener) list"
  windowOpenHandler :: "(open_details \<Rightarrow> handler_response) option"

definition preventDefault :: "event \<Rightarrow> event" where
  "preventDefault e = e\<lparr>defaultPrevented := True\<rparr>"

text \<open>Emitting an event runs every listener registered under its name, in order.\<close>

fun emit :: "(string \<times> listener) list \<Rightarrow> string \<Rightarrow> nat \<Rightarrow> event \<Rightarrow> event \<times> effect list" where
  "emit [] name pid e = (e, [])"
| "emit ((n, l) # ls) name pid e =
     (if n = name
      then (case l pid e of
              (e', tr) \<Rightarrow> (case emit ls name pid e' of (e'', tr') \<Rightarrow> (e'', tr @ tr')))
      else emit ls name pid e)"

text \<open>The web preferences a surface was constructed with.\<close>

definition webPreferences_of :: "surface \<Rightarrow> jsobj" where
  "webPreferences_of s =
     (case options s ''webPreferences'' of Some (VObj m) \<Rightarrow> m | _ \<Rightarrow> Map.empty)"

definition createWindow :: "env \<Rightarrow> string \<Rightarrow> jsobj option \<Rightarrow> jsobj option \<Rightarrow> surface io" where
  "createWindow env name opts webPreferences =
     (let browserWindow =
        \<lparr> kind = BrowserWindow,
          options = (spread opts)
            (''frame'' \<mapsto> VBool False,
             ''acceptFirstMouse'' \<mapsto> VBool True,
             ''transparent'' \<mapsto> VBool (platform env = ''darwin''),
             ''show'' \<mapsto> VBool False,
             ''skipTaskbar'' \<mapsto> VBool (platform env \<noteq> ''linux''),
             ''webPreferences'' \<mapsto> VObj ((spread webPreferences)
               (''preload'' \<mapsto> VStr (path_resolve env [BUNDLE_LOCATION env, ''bridge.js'']),
                ''backgroundThrottling'' \<mapsto> VBool False,
                ''contextIsolation'' \<mapsto> VBool True,
                ''webviewTag'' \<mapsto> VBool False,
                ''sandbox'' \<mapsto> VBool True,
                ''defaultEncoding'' \<mapsto> VStr ''utf-8'',
                ''nodeIntegration'' \<mapsto> VBool False,
                ''scrollBounce'' \<mapsto> VBool True,
                ''navigateOnDragDrop'' \<mapsto> VBool False,
                ''disableBlinkFeatures'' \<mapsto> VStr ''Auxclick''))),
          once_listeners =
            [(''did-finish-load'',
              \<lambda>pid e. (e, [LogInfo (''Created '' @ name @ '' renderer process, pid:'') pid]))],
          on_listeners =
            [(''will-navigate'', \<lambda>pid e. (preventDefault e, [])),
             (''will-attach-webview'', \<lambda>pid e. (preventDefault e, []))],
          windowOpenHandler = Some (\<lambda>details. \<lparr> action = ''deny'' \<rparr>) \<rparr>
      in (Inr browserWindow, [LogVerbose (''Creating '' @ name @ '' window'')]))"

text \<open>\<^verbatim>\<open>createViewInstance(ens = '', webPreferences = {})\<close>.\<close>

definition createViewInstance :: "env \<Rightarrow> string option \<Rightarrow> jsobj option \<Rightarrow> surface io" where
  "createViewInstance env ens_arg webPreferences =
     (let ens = (case ens_arg of None \<Rightarrow> [] | Some s \<Rightarrow> s);
          viewInstance =
        \<lparr> kind = BrowserView,
          options = Map.empty
            (''webPreferences'' \<mapsto> VObj ((spread webPreferences)
               (''contextIsolation'' \<mapsto> VBool True,
                ''webviewTag'' \<mapsto> VBool False,
                ''sandbox'' \<mapsto> VBool True,
                ''defaultEncoding'' \<mapsto> VStr ''utf-8'',
                ''nodeIntegration'' \<mapsto> VBool False,
                ''scrollBounce'' \<mapsto> VBool False,
                ''navigateOnDragDrop'' \<mapsto> VBool False,
                ''disableBlinkFeatures'' \<mapsto> VStr ''Auxclick'',
                ''preload'' \<mapsto> VStr (path_resolve env [''./main/windows/viewPreload.js'']),
                ''partition'' \<mapsto> VStr (''persist:'' @ ens)))),
          once_listeners = [],
          on_listeners =
            [(''will-navigate'', \<lambda>pid e. (preventDefault e, [])),
             (''will-attach-webview'', \<lambda>pid e. (preventDefault e, []))],
          windowOpenHandler = Some (\<lambda>details. \<lparr> action = ''deny'' \<rparr>) \<rparr>
      in (Inr viewInstance, []))"

text \<open>
  \<^verbatim>\<open>createOverlayInstance(url = '', webPreferences = {})\<close>; the body never reads
  \<^verbatim>\<open>url\<close>.
\<close>

definition createOverlayInstance :: "env \<Rightarrow> string option \<Rightarrow> jsobj option \<Rightarrow> surface io" where
  "createOverlayInstance env url_arg webPreferences =
     (let overlayInstance =
        \<lparr> kind = BrowserView,
          options = Map.empty
            (''webPreferences'' \<mapsto> VObj ((spread webPreferences)
               (''contextIsolation'' \<mapsto> VBool True,
                ''webviewTag'' \<mapsto> VBool False,
                ''sandbox'' \<mapsto> VBool True,
                ''defaultEncoding'' \<mapsto> VStr ''utf-8'',
                ''nodeIntegration'' \<mapsto> VBool False,
                ''scrollBounce'' \<mapsto> VBool True,
                ''navigateOnDragDrop'' \<mapsto> VBool False,
                ''disableBlinkFeatures'' \<mapsto> VStr ''Auxclick'',
                ''preload'' \<mapsto> VStr (path_resolve env [BUNDLE_LOCATION env, ''bridge.js''])))),
          once_listeners = [],
          on_listeners =
            [(''will-navigate'', \<lambda>pid e. (preventDefault e, [])),
             (''will-attach-webview'', \<lambda>pid e. (preventDefault e, []))],
          windowOpenHandler = Some (\<lambda>details. \<lparr> action = ''deny'' \<rparr>) \<rparr>
      in (Inr overlayInstance, []))"

section \<open>The Dapps view component\<close>

text \<open>
  \<^verbatim>\<open>src/app/tray/Account/Contacts/index.js\<close>: \<^verbatim>\<open>render\<close> reads \<^verbatim>\<open>this.props\<close> only
  and returns one of three elements, each given all the props.
\<close>

type_synonym props = jsobj

datatype element = OriginExpanded props | DappsExpanded props | DappsPreview props

definition render :: "props \<Rightarrow> js_error + element" where
  "render props =
     (let expandedData = js_or (get_prop props ''expandedData'') (VObj Map.empty)
      in case member expandedData ''originId'' of
           Inl e \<Rightarrow> Inl e
         | Inr originId \<Rightarrow>
             if truthy originId then Inr (OriginExpanded props)
             else if truthy (get_prop props ''expanded'') then Inr (DappsExpanded props)
             else Inr (DappsPreview props))"

section \<open>Calls outside the declared types\<close>

text \<open>
  TypeScript's types are gone when the code runs, and a caller can pass what they exclude.
  Two such calls are modelled, far enough to see what the code does with them:
  \<^verbatim>\<open>openExternal\<close> with \<^verbatim>\<open>null\<close>, and \<^verbatim>\<open>openBlockExplorer\<close> with a request that
  has no \<^verbatim>\<open>chain\<close>.
\<close>

datatype url_arg = ArgUndefined | ArgNull | ArgString string

text \<open>
  \<^verbatim>\<open>url.startsWith(p)\<close> for such a value: the method cannot be read from \<^verbatim>\<open>null\<close> or
  \<^verbatim>\<open>undefined\<close>.
\<close>

fun startsWith_call :: "url_arg \<Rightarrow> string \<Rightarrow> js_error + bool" where
  "startsWith_call (ArgString s) p = Inr (startsWith s p)"
| "startsWith_call ArgNull p =
     Inl (TypeError ''Cannot read properties of null (reading startsWith)'')"
| "startsWith_call ArgUndefined p =
     Inl (TypeError ''Cannot read properties of undefined (reading startsWith)'')"

text \<open>
  \<^verbatim>\<open>entries.some((entry) => url === entry || url.startsWith(entry + '/'))\<close>, entry by
  entry: it stops at the first entry that passes, and at the first call that throws.
\<close>

fun some_entry_matches :: "url_arg \<Rightarrow> string list \<Rightarrow> js_error + bool" where
  "some_entry_matches url [] = Inr False"
| "some_entry_matches url (entry # entries) =
     (if url = ArgString entry then Inr True
      else case startsWith_call url (entry @ ''/'') of
             Inl e \<Rightarrow> Inl e
           | Inr matches \<Rightarrow> if matches then Inr True else some_entry_matches url entries)"

definition isWhitelistedHost_untyped :: "url_arg \<Rightarrow> js_error + bool" where
  "isWhitelistedHost_untyped url = some_entry_matches url externalWhitelist"

definition isValidReleasePage_untyped :: "url_arg \<Rightarrow> js_error + bool" where
  "isValidReleasePage_untyped url =
     (case startsWith_call url ''https://github.com/floating/frame/releases/tag'' of
        Inl e \<Rightarrow> Inl e
      | Inr matches \<Rightarrow>
          if matches then Inr True
          else startsWith_call url ''https://github.com/frame-labs/frame-canary/releases/tag'')"

text \<open>
  \<^verbatim>\<open>shell.openExternal(url)\<close>: only a string gets as far as this call, and Electron refuses
  any other value.
\<close>

definition shell_openExternal :: "url_arg \<Rightarrow> unit io" where
  "shell_openExternal url =
     (case url of
        ArgString s \<Rightarrow> (Inr (), [ShellOpenExternal s])
      | _ \<Rightarrow> (Inl (TypeError ''Error processing argument at index 0''), []))"

text \<open>
  \<^verbatim>\<open>openExternal\<close> again, on such a value. The default \<^verbatim>\<open>''\<close> replaces
  \<^verbatim>\<open>undefined\<close> only, so \<^verbatim>\<open>null\<close> reaches the body.
\<close>

definition openExternal_untyped :: "url_arg \<Rightarrow> unit io" where
  "openExternal_untyped arg =
     (let url = (case arg of ArgUndefined \<Rightarrow> ArgString [] | _ \<Rightarrow> arg)
      in case isWhitelistedHost_untyped url of
           Inl e \<Rightarrow> (Inl e, [])
         | Inr listed \<Rightarrow>
             if listed then shell_openExternal url
             else (case isValidReleasePage_untyped url of
                     Inl e \<Rightarrow> (Inl e, [])
                   | Inr release \<Rightarrow> if release then shell_openExternal url else (Inr (), [])))"

text \<open>
  A request whose \<^verbatim>\<open>chain\<close> may be missing. The first thing \<^verbatim>\<open>openBlockExplorer\<close>
  evaluates after the destructuring is \<^verbatim>\<open>chain.type\<close>, an argument of the store lookup:
  with no chain this read throws, and the promise of the \<^verbatim>\<open>async\<close> function rejects.
  With a chain the function goes on as on a request of the declared type.
\<close>

record OpenExplorer_untyped =
  ureq_chain :: "chain_ref option"
  ureq_type :: explorer_type
  ureq_hash :: "string option"
  ureq_address :: "string option"
  ureq_tokenId :: "string option"

definition openBlockExplorer_untyped :: "store \<Rightarrow> network \<Rightarrow> OpenExplorer_untyped \<Rightarrow> unit io" where
  "openBlockExplorer_untyped store net openExplorer =
     (case ureq_chain openExplorer of
        None \<Rightarrow> (Inl (TypeError ''Cannot read properties of undefined (reading type)''), [])
      | Some chain \<Rightarrow>
          openBlockExplorer store net
            \<lparr> req_chain = chain,
              req_type = ureq_type openExplorer,
              req_hash = ureq_hash openExplorer,
              req_address = ureq_address openExplorer,
              req_tokenId = ureq_tokenId openExplorer \<rparr>)"

section \<open>Example inputs\<close>

text \<open>
  Concrete inputs at which the theorems below are instantiated: preferences and options
  that try to switch every protection off, a process environment, a window-open request
  and an event that nothing has prevented yet.
\<close>

definition hostile_prefs :: jsobj where
  "hostile_prefs =
     [''contextIsolation'' \<mapsto> VBool False, ''webviewTag'' \<mapsto> VBool True,
      ''sandbox'' \<mapsto> VBool False, ''nodeIntegration'' \<mapsto> VBool True]"

definition hostile_opts :: jsobj where
  "hostile_opts = [''show'' \<mapsto> VBool True, ''webPreferences'' \<mapsto> VObj hostile_prefs]"

definition example_env :: env where
  "example_env = \<lparr> platform = ''linux'', BUNDLE_LOCATION = ''/opt/frame'', path_resolve = concat \<rparr>"

definition example_details :: open_details where
  "example_details = \<lparr> details_url = ''https://evil.example'' \<rparr>"

definition fresh_event :: event where
  "fresh_event = \<lparr> defaultPrevented = False \<rparr>"

text \<open>
  Networks, configuration stores, requests and props: a network on which every request
  fails, one on which only the token page of the example address exists, a store with no
  explorer, one whose explorer is a lone slash, and one whose explorer ends in two slashes.
\<close>

definition unreachable_network :: network where
  "unreachable_network url = Rejects (OtherError ''connect ECONNREFUSED'')"

definition token_only_network :: network where
  "token_only_network url =
     Resolves \<lparr> redirected = False, ok = (url = ''https://ex.com/token/0xabc'') \<rparr>"

definition unconfigured_store :: store where
  "unconfigured_store chainType chainId = None"

definition slash_store :: store where
  "slash_store chainType chainId = Some ''/''"

definition example_store :: store where
  "example_store chainType chainId = Some ''https://ex.com//''"

definition mainnet :: chain_ref where
  "mainnet = \<lparr> chain_id = 1, chain_type = ''ethereum'' \<rparr>"

definition tx_without_hash :: OpenExplorer where
  "tx_without_hash =
     \<lparr> req_chain = mainnet, req_type = Tx, req_hash = None, req_address = None,
       req_tokenId = None \<rparr>"

definition nft_request :: OpenExplorer where
  "nft_request =
     \<lparr> req_chain = mainnet, req_type = Token, req_hash = None, req_address = Some ''0xabc'',
       req_tokenId = Some ''7'' \<rparr>"

definition chainless_request :: OpenExplorer_untyped where
  "chainless_request =
     \<lparr> ureq_chain = None, ureq_type = Tx, ureq_hash = Some ''0x1234'', ureq_address = None,
       ureq_tokenId = None \<rparr>"

definition origin_props :: props where
  "origin_props =
     [''expandedData'' \<mapsto> VObj [''originId'' \<mapsto> VStr ''x''], ''expanded'' \<mapsto> VBool True]"

definition expanded_props :: props where
  "expanded_props = [''expanded'' \<mapsto> VBool True]"

definition empty_props :: props where
  "empty_props = Map.empty"

section \<open>Properties of the navigation gate\<close>

lemma startsWith_iff_append: "startsWith s p \<longleftrightarrow> (\<exists>rest. s = p @ rest)"
  by (induction s p rule: startsWith.induct) auto

lemma startsWith_iff_prefix: "startsWith s p \<longleftrightarrow> prefix p s"
  by (simp add: startsWith_iff_append prefix_def)

lemma externalWhitelist_size: "length externalWhitelist = 13 \<and> distinct externalWhitelist"
  by (simp add: externalWhitelist_def)

lemma openExternal_lookalike_host:
  "openExternal (Some ''https://frame.sh.evil.example'') = (Inr (), []) \<and>
   openExternal None = (Inr (), [])"
  by (simp add: openExternal_def isWhitelistedHost_def isValidReleasePage_def externalWhitelist_def)

text \<open>
  C1. For every URL \<open>u\<close> (the empty string when the argument is left out),
  \<open>openExternal\<close> calls \<^verbatim>\<open>shell.openExternal(u)\<close>, once, if and only if \<open>u\<close> is an
  entry of the allow-list, or is an entry followed by \<open>/\<close> and anything, or starts with one
  of the two release-tag prefixes. For every other \<open>u\<close> it has no effect at all: no
  external-open call, no log line; and it never throws.
\<close>

theorem openExternal_gate:
  "openExternal arg =
     (let u = (case arg of None \<Rightarrow> [] | Some s \<Rightarrow> s)
      in (Inr (),
          if (\<exists>entry. entry \<in> set externalWhitelist \<and>
                (u = entry \<or> (\<exists>rest. u = entry @ ''/'' @ rest))) \<or>
             (\<exists>rest. u = ''https://github.com/floating/frame/releases/tag'' @ rest) \<or>
             (\<exists>rest. u = ''https://github.com/frame-labs/frame-canary/releases/tag'' @ rest)
          then [ShellOpenExternal u] else []))"
proof -
  define u where "u = (case arg of None \<Rightarrow> [] | Some s \<Rightarrow> s)"
  have wl: "isWhitelistedHost u \<longleftrightarrow>
      (\<exists>entry. entry \<in> set externalWhitelist \<and> (u = entry \<or> (\<exists>rest. u = entry @ ''/'' @ rest)))"
    unfolding isWhitelistedHost_def list_ex_iff startsWith_iff_append by auto
  have rp: "isValidReleasePage u \<longleftrightarrow>
      (\<exists>rest. u = ''https://github.com/floating/frame/releases/tag'' @ rest) \<or>
      (\<exists>rest. u = ''https://github.com/frame-labs/frame-canary/releases/tag'' @ rest)"
    unfolding isValidReleasePage_def startsWith_iff_append by (rule refl)
  show ?thesis
    unfolding openExternal_def Let_def u_def [symmetric] wl rp by simp
qed

text \<open>
  The examples of the specification: a child path of an allow-listed entry is opened, an
  unknown host is dropped.
\<close>

theorem openExternal_gate_witness:
  "openExternal (Some ''https://frame.sh/docs'') =
     (Inr (), [ShellOpenExternal ''https://frame.sh/docs'']) \<and>
   openExternal (Some ''https://evil.example'') = (Inr (), [])"
  using openExternal_gate [of "Some ''https://frame.sh/docs''"]
    openExternal_gate [of "Some ''https://evil.example''"]
  by (simp add: openExternal_def isWhitelistedHost_def isValidReleasePage_def externalWhitelist_def)

section \<open>Properties of the window and view factory\<close>

lemma hostile_prefs_are_hostile:
  "hostile_prefs ''contextIsolation'' = Some (VBool False) \<and>
   hostile_prefs ''webviewTag'' = Some (VBool True) \<and>
   hostile_prefs ''sandbox'' = Some (VBool False) \<and>
   hostile_prefs ''nodeIntegration'' = Some (VBool True)"
  by (simp add: hostile_prefs_def)

text \<open>
  C2. Each of \<open>createWindow\<close>, \<open>createViewInstance\<close> and \<open>createOverlayInstance\<close>
  returns a surface, whatever options and web preferences the caller supplies, and every
  surface so returned was constructed with \<open>contextIsolation\<close> true, \<open>webviewTag\<close> false,
  \<open>sandbox\<close> true and \<open>nodeIntegration\<close> false, has every \<open>will-navigate\<close> and every
  \<open>will-attach-webview\<close> event prevented by its listeners, and has a window-open handler
  that answers every request with \<open>deny\<close>.
\<close>

theorem factory_surfaces_locked_down:
  "(\<exists>s. fst (createWindow env name opts wp) = Inr s) \<and>
   (\<exists>s. fst (createViewInstance env ens wp) = Inr s) \<and>
   (\<exists>s. fst (createOverlayInstance env url wp) = Inr s) \<and>
   (\<forall>s. fst (createWindow env name opts wp) = Inr s \<or>
        fst (createViewInstance env ens wp) = Inr s \<or>
        fst (createOverlayInstance env url wp) = Inr s \<longrightarrow>
        webPreferences_of s ''contextIsolation'' = Some (VBool True) \<and>
        webPreferences_of s ''webviewTag'' = Some (VBool False) \<and>
        webPreferences_of s ''sandbox'' = Some (VBool True) \<and>
        webPreferences_of s ''nodeIntegration'' = Some (VBool False) \<and>
        (\<forall>pid e. defaultPrevented (fst (emit (on_listeners s) ''will-navigate'' pid e))) \<and>
        (\<forall>pid e. defaultPrevented (fst (emit (on_listeners s) ''will-attach-webview'' pid e))) \<and>
        (\<exists>h. windowOpenHandler s = Some h \<and> (\<forall>d. action (h d) = ''deny'')))"
proof (intro conjI allI impI)
  show "\<exists>s. fst (createWindow env name opts wp) = Inr s"
    by (simp add: createWindow_def)
  show "\<exists>s. fst (createViewInstance env ens wp) = Inr s"
    by (simp add: createViewInstance_def)
  show "\<exists>s. fst (createOverlayInstance env url wp) = Inr s"
    by (simp add: createOverlayInstance_def)
next
  fix s
  assume "fst (createWindow env name opts wp) = Inr s \<or>
          fst (createViewInstance env ens wp) = Inr s \<or>
          fst (createOverlayInstance env url wp) = Inr s"
  then consider
      (window) "s = projr (fst (createWindow env name opts wp))"
    | (view) "s = projr (fst (createViewInstance env ens wp))"
    | (overlay) "s = projr (fst (createOverlayInstance env url wp))"
    by (metis sum.sel(2))
  note made = this
  show "webPreferences_of s ''contextIsolation'' = Some (VBool True)"
    using made
    by cases (simp_all add: createWindow_def createViewInstance_def createOverlayInstance_def
        webPreferences_of_def)
  show "webPreferences_of s ''webviewTag'' = Some (VBool False)"
    using made
    by cases (simp_all add: createWindow_def createViewInstance_def createOverlayInstance_def
        webPreferences_of_def)
  show "webPreferences_of s ''sandbox'' = Some (VBool True)"
    using made
    by cases (simp_all add: createWindow_def createViewInstance_def createOverlayInstance_def
        webPreferences_of_def)
  show "webPreferences_of s ''nodeIntegration'' = Some (VBool False)"
    using made
    by cases (simp_all add: createWindow_def createViewInstance_def createOverlayInstance_def
        webPreferences_of_def)
  show "defaultPrevented (fst (emit (on_listeners s) ''will-navigate'' pid e))" for pid e
    using made
    by cases (simp_all add: createWindow_def createViewInstance_def createOverlayInstance_def
        preventDefault_def)
  show "defaultPrevented (fst (emit (on_listeners s) ''will-attach-webview'' pid e))" for pid e
    using made
    by cases (simp_all add: createWindow_def createViewInstance_def createOverlayInstance_def
        preventDefault_def)
  show "\<exists>h. windowOpenHandler s = Some h \<and> (\<forall>d. action (h d) = ''deny'')"
    using made
    by cases (simp_all add: createWindow_def createViewInstance_def createOverlayInstance_def)
qed

text \<open>
  The hostile preferences and options, handed to \<open>createWindow\<close>, change none of it.
\<close>

theorem factory_surfaces_locked_down_witness:
  "\<exists>s h. fst (createWindow example_env ''main'' (Some hostile_opts) (Some hostile_prefs)) = Inr s \<and>
     webPreferences_of s ''contextIsolation'' = Some (VBool True) \<and>
     webPreferences_of s ''webviewTag'' = Some (VBool False) \<and>
     webPreferences_of s ''sandbox'' = Some (VBool True) \<and>
     webPreferences_of s ''nodeIntegration'' = Some (VBool False) \<and>
     defaultPrevented (fst (emit (on_listeners s) ''will-navigate'' 4242 fresh_event)) \<and>
     defaultPrevented (fst (emit (on_listeners s) ''will-attach-webview'' 4242 fresh_event)) \<and>
     windowOpenHandler s = Some h \<and> action (h example_details) = ''deny''"
proof -
  note locked =
    factory_surfaces_locked_down [of example_env "''main''" "Some hostile_opts"
      "Some hostile_prefs" "Some ''frame.eth''" None]
  from locked obtain s
    where s: "fst (createWindow example_env ''main'' (Some hostile_opts) (Some hostile_prefs)) = Inr s"
    by blast
  with locked show ?thesis by blast
qed

section \<open>Properties of the explorer URL resolver\<close>

subsection \<open>The existence probe\<close>

lemma urlExists_eq:
  "urlExists net url =
     \<lparr> started = [FetchHead url],
       outcome = Inr (case net url of Resolves r \<Rightarrow> \<not> redirected r \<and> ok r | Rejects e \<Rightarrow> False),
       afterwards = (case net url of Resolves r \<Rightarrow> [] | Rejects e \<Rightarrow> [ConsoleLog e]) \<rparr>"
  by (simp add: urlExists_def fetch_head_def Let_def split: fetch_outcome.split)

text \<open>
  C5. \<open>urlExists\<close> sends one HEAD request and always settles to a boolean, never to an
  exception. The boolean is true if and only if the request resolved with a response that
  is not redirected and is ok; nothing else happens then. When the request rejects with an
  error \<open>e\<close>, the boolean is false and \<open>e\<close> is logged.
\<close>

theorem urlExists_probe:
  "(outcome (urlExists net url) = Inr True \<longleftrightarrow>
      (\<exists>r. net url = Resolves r \<and> \<not> redirected r \<and> ok r)) \<and>
   (\<exists>b. outcome (urlExists net url) = Inr b) \<and>
   started (urlExists net url) = [FetchHead url] \<and>
   (\<forall>r. net url = Resolves r \<longrightarrow>
      outcome (urlExists net url) = Inr (\<not> redirected r \<and> ok r) \<and>
      afterwards (urlExists net url) = []) \<and>
   (\<forall>e. net url = Rejects e \<longrightarrow>
      outcome (urlExists net url) = Inr False \<and>
      afterwards (urlExists net url) = [ConsoleLog e])"
  by (cases "net url") (auto simp: urlExists_def fetch_head_def)

text \<open>On the network where every request fails, the probe answers false and logs.\<close>

theorem urlExists_probe_witness:
  "started (urlExists unreachable_network ''https://ex.com/token/0xabc'') =
     [FetchHead ''https://ex.com/token/0xabc''] \<and>
   outcome (urlExists unreachable_network ''https://ex.com/token/0xabc'') = Inr False \<and>
   afterwards (urlExists unreachable_network ''https://ex.com/token/0xabc'') =
     [ConsoleLog (OtherError ''connect ECONNREFUSED'')]"
  using urlExists_probe [of unreachable_network "''https://ex.com/token/0xabc''"]
  by (simp add: unreachable_network_def)

subsection \<open>Token URL disambiguation\<close>

lemma getTokenUrl_falsy:
  "\<not> truthy_str tokenId \<Longrightarrow>
   getTokenUrl net explorer address tokenId = (Inr (Some (explorer @ ''/token/'' @ address)), [])"
  by (simp add: getTokenUrl_def)

lemma getTokenUrl_probed:
  assumes "tokenId \<noteq> []"
  shows "getTokenUrl net explorer address (Some tokenId) =
     (Inr (Some (if outcome (urlExists net (explorer @ ''/nft/'' @ address @ ''/'' @ tokenId)) = Inr True
                 then explorer @ ''/nft/'' @ address @ ''/'' @ tokenId
                 else if outcome (urlExists net (explorer @ ''/token/'' @ address)) = Inr True
                 then explorer @ ''/token/'' @ address
                 else explorer @ ''/address/'' @ address)),
      [FetchHead (explorer @ ''/nft/'' @ address @ ''/'' @ tokenId),
       FetchHead (explorer @ ''/token/'' @ address)] @
      afterwards (urlExists net (explorer @ ''/nft/'' @ address @ ''/'' @ tokenId)) @
      afterwards (urlExists net (explorer @ ''/token/'' @ address)))"
  using assms
  by (simp add: getTokenUrl_def Promise_all_def truthy_str_def template_def Let_def urlExists_eq
      index_at_def)

lemma getTokenUrl_returns: "\<exists>u tr. getTokenUrl net explorer address tokenId = (Inr (Some u), tr)"
proof (cases "truthy_str tokenId")
  case False
  then show ?thesis by (simp add: getTokenUrl_falsy)
next
  case True
  then obtain t where "tokenId = Some t" "t \<noteq> []"
    by (auto simp: truthy_str_def split: option.splits)
  then show ?thesis by (simp add: getTokenUrl_probed)
qed

text \<open>
  C3, amended. For every explorer base URL, address and non-empty tokenId, \<open>getTokenUrl\<close>
  probes the NFT path and the token path, in this order, and returns the first of the two
  whose probe was positive: the NFT path when only it is positive, the token path when
  only it is positive, the NFT path when both are, and base/address/address when neither
  is.
\<close>

theorem getTokenUrl_priority:
  "tokenId \<noteq> [] \<Longrightarrow>
   (let nftPath = explorer @ ''/nft/'' @ address @ ''/'' @ tokenId;
        tokenPath = explorer @ ''/token/'' @ address;
        nftExists = (outcome (urlExists net nftPath) = Inr True);
        tokenExists = (outcome (urlExists net tokenPath) = Inr True);
        result = fst (getTokenUrl net explorer address (Some tokenId))
    in (nftExists \<and> \<not> tokenExists \<longrightarrow> result = Inr (Some nftPath)) \<and>
       (\<not> nftExists \<and> tokenExists \<longrightarrow> result = Inr (Some tokenPath)) \<and>
       (nftExists \<and> tokenExists \<longrightarrow> result = Inr (Some nftPath)) \<and>
       (\<not> nftExists \<and> \<not> tokenExists \<longrightarrow>
          result = Inr (Some (explorer @ ''/address/'' @ address))) \<and>
       snd (getTokenUrl net explorer address (Some tokenId)) =
         [FetchHead nftPath, FetchHead tokenPath] @
         afterwards (urlExists net nftPath) @ afterwards (urlExists net tokenPath))"
  by (simp add: getTokenUrl_probed Let_def)

text \<open>Only the token page exists: the result is the token path, after two probes.\<close>

theorem getTokenUrl_priority_witness:
  "outcome (urlExists token_only_network ''https://ex.com/nft/0xabc/7'') = Inr False \<and>
   outcome (urlExists token_only_network ''https://ex.com/token/0xabc'') = Inr True \<and>
   getTokenUrl token_only_network ''https://ex.com'' ''0xabc'' (Some ''7'') =
     (Inr (Some ''https://ex.com/token/0xabc''),
      [FetchHead ''https://ex.com/nft/0xabc/7'', FetchHead ''https://ex.com/token/0xabc''])"
proof -
  have n: "outcome (urlExists token_only_network ''https://ex.com/nft/0xabc/7'') = Inr False"
    "afterwards (urlExists token_only_network ''https://ex.com/nft/0xabc/7'') = []"
    by (simp_all add: urlExists_def fetch_head_def token_only_network_def)
  have t: "outcome (urlExists token_only_network ''https://ex.com/token/0xabc'') = Inr True"
    "afterwards (urlExists token_only_network ''https://ex.com/token/0xabc'') = []"
    by (simp_all add: urlExists_def fetch_head_def token_only_network_def)
  have ne: "''7'' \<noteq> ''''" by simp
  from getTokenUrl_priority [OF ne, of "''https://ex.com''" "''0xabc''" token_only_network]
  show ?thesis
    by (simp add: Let_def n t prod_eq_iff)
qed

text \<open>
  A tokenId that is present but empty is falsy: \<open>getTokenUrl\<close> returns the token path at
  once, although neither probe would be positive, and not base/address/address.
\<close>

theorem getTokenUrl_empty_tokenId_counterexample:
  "outcome (urlExists unreachable_network ''https://ex.com/nft/0xabc/'') = Inr False \<and>
   outcome (urlExists unreachable_network ''https://ex.com/token/0xabc'') = Inr False \<and>
   getTokenUrl unreachable_network ''https://ex.com'' ''0xabc'' (Some '''') =
     (Inr (Some ''https://ex.com/token/0xabc''), []) \<and>
   ''https://ex.com/token/0xabc'' \<noteq> ''https://ex.com/address/0xabc''"
  by (simp add: urlExists_def fetch_head_def unreachable_network_def getTokenUrl_def
      truthy_str_def)

text \<open>
  C4. Called with no tokenId, \<open>getTokenUrl\<close> returns base/token/address and has no
  effect: no HEAD request is sent.
\<close>

theorem getTokenUrl_without_tokenId:
  "getTokenUrl net explorer address None = (Inr (Some (explorer @ ''/token/'' @ address)), [])"
  by (simp add: getTokenUrl_def truthy_str_def)

text \<open>The example of the specification, on a network that is never asked.\<close>

theorem getTokenUrl_without_tokenId_witness:
  "getTokenUrl unreachable_network ''https://ex.com'' ''0xabc'' None =
     (Inr (Some ''https://ex.com/token/0xabc''), [])"
  using getTokenUrl_without_tokenId [of unreachable_network "''https://ex.com''" "''0xabc''"]
  by simp

text \<open>
  C10. Whatever the probes answer and whether or not a tokenId is given, \<open>getTokenUrl\<close>
  returns a string; the string is not empty, starts with the explorer base, and is the
  NFT path of the given tokenId, the token path or the address path.
\<close>

theorem getTokenUrl_shape:
  "\<exists>url tr. getTokenUrl net explorer address tokenId = (Inr (Some url), tr) \<and>
     url \<noteq> [] \<and> prefix explorer url \<and>
     ((\<exists>t. tokenId = Some t \<and> url = explorer @ ''/nft/'' @ address @ ''/'' @ t) \<or>
      url = explorer @ ''/token/'' @ address \<or>
      url = explorer @ ''/address/'' @ address)"
proof (cases "truthy_str tokenId")
  case False
  then show ?thesis by (simp add: getTokenUrl_falsy)
next
  case True
  then obtain t where "tokenId = Some t" "t \<noteq> []"
    by (auto simp: truthy_str_def split: option.splits)
  then show ?thesis by (simp add: getTokenUrl_probed)
qed

text \<open>With a tokenId and no page reachable, the result is the address path.\<close>

theorem getTokenUrl_shape_witness:
  "fst (getTokenUrl unreachable_network ''https://ex.com'' ''0xabc'' (Some ''7'')) =
     Inr (Some ''https://ex.com/address/0xabc'')"
proof -
  have "fst (getTokenUrl unreachable_network ''https://ex.com'' ''0xabc'' (Some ''7'')) \<noteq>
      Inr (Some ''https://ex.com/nft/0xabc/7'')"
    "fst (getTokenUrl unreachable_network ''https://ex.com'' ''0xabc'' (Some ''7'')) \<noteq>
      Inr (Some ''https://ex.com/token/0xabc'')"
    by (simp_all add: getTokenUrl_def Promise_all_def truthy_str_def template_def urlExists_def
        fetch_head_def unreachable_network_def index_at_def)
  with getTokenUrl_shape [of unreachable_network "''https://ex.com''" "''0xabc''" "Some ''7''"]
  show ?thesis by auto
qed

subsection \<open>Opening the explorer\<close>

lemma takeWhile_eq_replicate:
  "takeWhile (\<lambda>c. c = x) xs = replicate (length (takeWhile (\<lambda>c. c = x) xs)) x"
  by (induction xs) auto

lemma strip_trailing_slashes_decompose:
  "\<exists>n. s = strip_trailing_slashes s @ replicate n CHR ''/''"
proof -
  let ?P = "\<lambda>c. c = CHR ''/''"
  have "rev s = takeWhile ?P (rev s) @ dropWhile ?P (rev s)" by simp
  then have "s = rev (dropWhile ?P (rev s)) @ rev (takeWhile ?P (rev s))"
    by (metis rev_append rev_rev_ident)
  moreover have "rev (takeWhile ?P (rev s)) = replicate (length (takeWhile ?P (rev s))) CHR ''/''"
    by (metis takeWhile_eq_replicate rev_replicate)
  ultimately show ?thesis
    unfolding strip_trailing_slashes_def by metis
qed

lemma strip_trailing_slashes_last:
  "strip_trailing_slashes s \<noteq> [] \<Longrightarrow> last (strip_trailing_slashes s) \<noteq> CHR ''/''"
  unfolding strip_trailing_slashes_def
  using hd_dropWhile [of "\<lambda>c. c = CHR ''/''" "rev s"]
  by (simp add: last_rev)

lemma strip_trailing_slashes_examples:
  "strip_trailing_slashes ''https://ex.com//'' = ''https://ex.com'' \<and>
   strip_trailing_slashes ''https://ex.com/a//b/'' = ''https://ex.com/a//b'' \<and>
   strip_trailing_slashes ''///'' = ''''"
  by (simp add: strip_trailing_slashes_def)

lemma urlFormats_returns: "\<exists>u tr. urlFormats net explorer hash address tokenId type = (Inr u, tr)"
proof (cases type)
  case Tx
  then show ?thesis by (simp add: urlFormats_def and_then_def split: option.split)
next
  case Address
  then show ?thesis by (simp add: urlFormats_def and_then_def split: option.split)
next
  case Token
  show ?thesis
  proof (cases "truthy_str address")
    case False
    with Token show ?thesis
      by (auto simp: urlFormats_def and_then_def truthy_str_def split: option.splits)
  next
    case True
    then obtain a where a: "address = Some a" "a \<noteq> []"
      by (auto simp: truthy_str_def split: option.splits)
    from getTokenUrl_returns [of net explorer a tokenId]
    obtain u tr where "getTokenUrl net explorer a tokenId = (Inr (Some u), tr)" by blast
    with Token a show ?thesis by (simp add: urlFormats_def and_then_def)
  qed
qed

lemma openBlockExplorer_unconfigured:
  "strip_trailing_slashes (or_else (store (chain_type (req_chain r)) (chain_id (req_chain r))) []) = []
   \<Longrightarrow> openBlockExplorer store net r = (Inr (), [])"
  by (simp add: openBlockExplorer_def Let_def)

lemma openBlockExplorer_configured:
  assumes "strip_trailing_slashes
      (or_else (store (chain_type (req_chain r)) (chain_id (req_chain r))) []) = explorer"
    and "explorer \<noteq> []"
    and "urlFormats net explorer (req_hash r) (req_address r) (req_tokenId r) (req_type r) =
      (Inr u, tr)"
  shows "openBlockExplorer store net r = (Inr (), tr @ [ShellOpenExternal (or_else u explorer)])"
  using assms by (simp add: openBlockExplorer_def Let_def)

text \<open>
  C6. When the configuration lookup for the request's chain yields nothing or the empty
  string, \<open>openBlockExplorer\<close> returns with no effect at all (no external-open call, no
  network request) and without an error.
\<close>

theorem openBlockExplorer_no_explorer:
  "store (chain_type (req_chain r)) (chain_id (req_chain r)) = None \<or>
   store (chain_type (req_chain r)) (chain_id (req_chain r)) = Some [] \<Longrightarrow>
   openBlockExplorer store net r = (Inr (), [])"
  by (rule openBlockExplorer_unconfigured)
     (auto simp: or_else_def strip_trailing_slashes_def)

text \<open>A token request with a tokenId, which would probe the network, on a store with no explorer.\<close>

theorem openBlockExplorer_no_explorer_witness:
  "unconfigured_store (chain_type (req_chain nft_request)) (chain_id (req_chain nft_request)) = None \<and>
   openBlockExplorer unconfigured_store unreachable_network nft_request = (Inr (), [])"
proof -
  have h: "unconfigured_store (chain_type (req_chain nft_request))
      (chain_id (req_chain nft_request)) = None"
    by (simp add: unconfigured_store_def)
  from openBlockExplorer_no_explorer
      [where store = unconfigured_store and r = nft_request and net = unreachable_network] h
  show ?thesis by simp
qed

text \<open>
  C7, amended. For a request of type tx with no hash, or of type address or token with no
  address, on a chain whose configured explorer URL is still non-empty once its trailing
  slashes are stripped, \<open>openBlockExplorer\<close> opens exactly that stripped URL and does
  nothing else. The stripped URL is the configured one without the whole run of slashes at
  its end.
\<close>

theorem openBlockExplorer_missing_field:
  assumes "store (chain_type (req_chain r)) (chain_id (req_chain r)) = Some configured"
    and "strip_trailing_slashes configured \<noteq> []"
    and "(req_type r = Tx \<and> req_hash r = None) \<or>
         (req_type r = Address \<and> req_address r = None) \<or>
         (req_type r = Token \<and> req_address r = None)"
  shows "openBlockExplorer store net r =
           (Inr (), [ShellOpenExternal (strip_trailing_slashes configured)]) \<and>
         (\<exists>n. configured = strip_trailing_slashes configured @ replicate n CHR ''/'') \<and>
         last (strip_trailing_slashes configured) \<noteq> CHR ''/''"
proof -
  let ?explorer = "strip_trailing_slashes configured"
  from assms(2) have "configured \<noteq> []"
    by (auto simp: strip_trailing_slashes_def)
  with assms(1) have e: "strip_trailing_slashes
      (or_else (store (chain_type (req_chain r)) (chain_id (req_chain r))) []) = ?explorer"
    by (simp add: or_else_def)
  from assms(3) have u: "urlFormats net ?explorer (req_hash r) (req_address r) (req_tokenId r)
      (req_type r) = (Inr None, [])"
    by (auto simp: urlFormats_def and_then_def)
  have "openBlockExplorer store net r = (Inr (), [ShellOpenExternal ?explorer])"
    using openBlockExplorer_configured [where store = store and r = r, OF e assms(2) u]
    by (simp add: or_else_def)
  then show ?thesis
    using strip_trailing_slashes_decompose [of configured]
      strip_trailing_slashes_last [OF assms(2)] by simp
qed

text \<open>A tx request with no hash, on a store whose explorer ends in two slashes.\<close>

theorem openBlockExplorer_missing_field_witness:
  "openBlockExplorer example_store unreachable_network tx_without_hash =
     (Inr (), [ShellOpenExternal ''https://ex.com''])"
proof -
  have c: "example_store (chain_type (req_chain tx_without_hash))
      (chain_id (req_chain tx_without_hash)) = Some ''https://ex.com//''"
    by (simp add: example_store_def)
  have s: "strip_trailing_slashes ''https://ex.com//'' = ''https://ex.com''"
    by (simp add: strip_trailing_slashes_def)
  have n: "strip_trailing_slashes ''https://ex.com//'' \<noteq> []"
    by (simp add: s)
  have f: "(req_type tx_without_hash = Tx \<and> req_hash tx_without_hash = None) \<or>
         (req_type tx_without_hash = Address \<and> req_address tx_without_hash = None) \<or>
         (req_type tx_without_hash = Token \<and> req_address tx_without_hash = None)"
    by (simp add: tx_without_hash_def)
  from openBlockExplorer_missing_field
      [where store = example_store and r = tx_without_hash and net = unreachable_network, OF c n f]
  show ?thesis by (simp add: s)
qed

text \<open>
  The configured explorer URL \<open>/\<close> is not empty, yet nothing of it is left once the
  slashes are stripped: the same tx request opens nothing.
\<close>

theorem openBlockExplorer_only_slashes_counterexample:
  "slash_store (chain_type (req_chain tx_without_hash)) (chain_id (req_chain tx_without_hash)) =
     Some ''/'' \<and>
   ''/'' \<noteq> '''' \<and>
   req_type tx_without_hash = Tx \<and> req_hash tx_without_hash = None \<and>
   openBlockExplorer slash_store unreachable_network tx_without_hash = (Inr (), [])"
  by (simp add: openBlockExplorer_def slash_store_def tx_without_hash_def or_else_def
      strip_trailing_slashes_def)

lemma openBlockExplorer_returns: "fst (openBlockExplorer store net r) = Inr ()"
proof -
  let ?explorer = "strip_trailing_slashes
      (or_else (store (chain_type (req_chain r)) (chain_id (req_chain r))) [])"
  show ?thesis
  proof (cases "?explorer = []")
    case True
    then show ?thesis by (simp add: openBlockExplorer_unconfigured)
  next
    case False
    obtain u tr where "urlFormats net ?explorer (req_hash r) (req_address r) (req_tokenId r)
        (req_type r) = (Inr u, tr)"
      using urlFormats_returns by blast
    from openBlockExplorer_configured [where store = store and r = r, OF refl False this]
    show ?thesis by simp
  qed
qed

lemma some_entry_matches_string:
  "some_entry_matches (ArgString u) entries =
     Inr (list_ex (\<lambda>entry. u = entry \<or> startsWith u (entry @ ''/'')) entries)"
  by (induction entries) auto

lemma isWhitelistedHost_untyped_string:
  "isWhitelistedHost_untyped (ArgString u) = Inr (isWhitelistedHost u)"
  by (simp add: isWhitelistedHost_untyped_def isWhitelistedHost_def some_entry_matches_string)

lemma isValidReleasePage_untyped_string:
  "isValidReleasePage_untyped (ArgString u) = Inr (isValidReleasePage u)"
  by (simp add: isValidReleasePage_untyped_def isValidReleasePage_def)

lemma openExternal_untyped_string: "openExternal_untyped (ArgString u) = openExternal (Some u)"
  by (simp add: openExternal_untyped_def openExternal_def Let_def shell_openExternal_def
      isWhitelistedHost_untyped_string isValidReleasePage_untyped_string)

lemma openExternal_untyped_undefined: "openExternal_untyped ArgUndefined = openExternal None"
  by (simp add: openExternal_untyped_def openExternal_def Let_def shell_openExternal_def
      isWhitelistedHost_untyped_string isValidReleasePage_untyped_string)

text \<open>
  C8, amended. For every input of the declared types, \<open>openBlockExplorer\<close> and
  \<open>openExternal\<close> return normally, and no exception reaches the caller: for every URL
  string and for the argument left out, and for every request that has a chain, a type
  among tx, address and token, and string fields that may be missing, on every network and
  every store whose explorer entry is a string or absent; whether the probes fail, request
  fields are missing or the configuration lookup yields nothing. The same holds of the
  calls that need not respect the types, on these inputs.
\<close>

theorem no_exception_propagates:
  "fst (openBlockExplorer store net r) = Inr () \<and>
   fst (openExternal arg) = Inr () \<and>
   fst (openExternal_untyped ArgUndefined) = Inr () \<and>
   fst (openExternal_untyped (ArgString u)) = Inr () \<and>
   fst (openBlockExplorer_untyped store net
          \<lparr> ureq_chain = Some chain, ureq_type = type, ureq_hash = hash,
            ureq_address = address, ureq_tokenId = tokenId \<rparr>) = Inr ()"
proof -
  have typed: "fst (openExternal a) = Inr ()" for a
    by (simp add: openExternal_def Let_def)
  show ?thesis
    by (simp add: openBlockExplorer_returns typed openExternal_untyped_string
        openExternal_untyped_undefined openBlockExplorer_untyped_def)
qed

text \<open>
  Both probes of a token request fail: the failures are logged, and the address page is
  opened.
\<close>

theorem no_exception_propagates_witness:
  "openBlockExplorer example_store unreachable_network nft_request =
     (Inr (),
      [FetchHead ''https://ex.com/nft/0xabc/7'', FetchHead ''https://ex.com/token/0xabc'',
       ConsoleLog (OtherError ''connect ECONNREFUSED''),
       ConsoleLog (OtherError ''connect ECONNREFUSED''),
       ShellOpenExternal ''https://ex.com/address/0xabc''])"
proof -
  have "snd (openBlockExplorer example_store unreachable_network nft_request) =
      [FetchHead ''https://ex.com/nft/0xabc/7'', FetchHead ''https://ex.com/token/0xabc'',
       ConsoleLog (OtherError ''connect ECONNREFUSED''),
       ConsoleLog (OtherError ''connect ECONNREFUSED''),
       ShellOpenExternal ''https://ex.com/address/0xabc'']"
    by (simp add: openBlockExplorer_def example_store_def nft_request_def mainnet_def or_else_def
        strip_trailing_slashes_def urlFormats_def and_then_def getTokenUrl_def truthy_str_def
        template_def Promise_all_def urlExists_def fetch_head_def unreachable_network_def
        index_at_def)
  with no_exception_propagates [of example_store unreachable_network nft_request None]
  show ?thesis by (simp add: prod_eq_iff)
qed

text \<open>
  Outside the declared types both routines throw: \<open>openExternal\<close> on \<^verbatim>\<open>null\<close>, at the
  first \<^verbatim>\<open>url.startsWith\<close>, and \<open>openBlockExplorer\<close> on a request with no chain, at
  \<^verbatim>\<open>chain.type\<close>.
\<close>

theorem exception_outside_declared_types_counterexample:
  "openExternal_untyped ArgNull =
     (Inl (TypeError ''Cannot read properties of null (reading startsWith)''), []) \<and>
   openBlockExplorer_untyped example_store unreachable_network chainless_request =
     (Inl (TypeError ''Cannot read properties of undefined (reading type)''), [])"
  by (simp add: openExternal_untyped_def isWhitelistedHost_untyped_def externalWhitelist_def
      openBlockExplorer_untyped_def chainless_request_def)

section \<open>Properties of the Dapps view component\<close>

lemma member_of_truthy:
  "truthy v \<Longrightarrow> member v k = Inr (case v of VObj m \<Rightarrow> get_prop m k | _ \<Rightarrow> VUndefined)"
  by (cases v) simp_all

text \<open>
  C9. For every props object, \<open>render\<close> returns an element and never throws. The element
  is the origin variant if and only if \<open>props.expandedData\<close> is an object with a truthy
  \<open>originId\<close>; otherwise it is the expanded variant if and only if \<open>props.expanded\<close> is
  truthy; otherwise, also when \<open>expandedData\<close> is absent, it is the preview variant. The
  element is given the props unchanged, and the result depends on the props alone.
\<close>

theorem Dapps_render_variant:
  "render props =
     Inr (if (\<exists>m v. props ''expandedData'' = Some (VObj m) \<and> m ''originId'' = Some v \<and> truthy v)
          then OriginExpanded props
          else if (\<exists>v. props ''expanded'' = Some v \<and> truthy v)
          then DappsExpanded props
          else DappsPreview props)"
proof -
  let ?data = "js_or (get_prop props ''expandedData'') (VObj Map.empty)"
  have t: "truthy ?data" by (simp add: js_or_def)
  have origin: "truthy (case ?data of VObj m \<Rightarrow> get_prop m ''originId'' | _ \<Rightarrow> VUndefined) \<longleftrightarrow>
      (\<exists>m v. props ''expandedData'' = Some (VObj m) \<and> m ''originId'' = Some v \<and> truthy v)"
  proof (cases "props ''expandedData''")
    case None
    then show ?thesis by (simp add: js_or_def get_prop_def)
  next
    case (Some d)
    then show ?thesis
      by (cases d) (auto simp: js_or_def get_prop_def split: option.splits)
  qed
  have expanded: "truthy (get_prop props ''expanded'') \<longleftrightarrow>
      (\<exists>v. props ''expanded'' = Some v \<and> truthy v)"
    by (auto simp: get_prop_def split: option.splits)
  show ?thesis
    unfolding render_def Let_def member_of_truthy [OF t] sum.case origin expanded
    by simp
qed

text \<open>
  Props with an origin id (and the expanded flag) give the origin variant, props with the
  expanded flag alone the expanded variant, empty props the preview.
\<close>

theorem Dapps_render_variant_witness:
  "render origin_props = Inr (OriginExpanded origin_props) \<and>
   render expanded_props = Inr (DappsExpanded expanded_props) \<and>
   render empty_props = Inr (DappsPreview empty_props)"
  using Dapps_render_variant [of origin_props] Dapps_render_variant [of expanded_props]
    Dapps_render_variant [of empty_props]
  by (simp add: origin_props_def expanded_props_def empty_props_def)

end
